theory Spec2Isabelle
  imports Complex_Main "HOL-Library.Word"
begin

section \<open>Plane-wave density fitting (pyscf/pbc/df/aft.py)\<close>

text \<open>
  A shallow embedding of \<^verbatim>\<open>pyscf/pbc/df/aft.py\<close>. Python floats are read as the real
  numbers they denote and their arithmetic as exact; \<^verbatim>\<open>int(x)\<close> truncates towards zero.
  The mesh numbers of \<^verbatim>\<open>numpy.asarray(self.gs)\<close> are 64-bit integers and wrap around; Python's
  own integers do not, and the shell offsets and pair counts, which stay far below the
  range of their machine type, are modelled as such. Logging and timing are left out.
\<close>

subsection \<open>Errors\<close>

text \<open>
  The two \<^verbatim>\<open>assert\<close> statements of the file are told apart by the condition they check.
  \<open>ZeroDivisionError\<close> stands for the failure of \<^verbatim>\<open>int(x / 0)\<close>: Python raises
  ZeroDivisionError for a float divided by an int 0, and OverflowError or ValueError from
  \<^verbatim>\<open>int(inf)\<close>, \<^verbatim>\<open>int(nan)\<close> when the divisor is a numpy integer 0.
\<close>

datatype assertion = Q_is_zero | Shls_slice2_is_zero

datatype error = AssertionError assertion | IndexError | ZeroDivisionError | ValueError

subsection \<open>The cell and the density-fitting object\<close>

type_synonym vec3 = "real \<times> real \<times> real"
type_synonym cvec = "complex list"
type_synonym cmat = "complex list list"

text \<open>A k-point argument is a numpy array of shape \<open>(3,)\<close> or of shape \<open>(n,3)\<close>.\<close>

datatype kpoints = Single vec3 | Batch "vec3 list"

text \<open>What \<^verbatim>\<open>get_nuc\<close> and \<^verbatim>\<open>get_pp\<close> return: one matrix, or a list of matrices.\<close>

datatype 'm result = Bare 'm | Lst "'m list"


text \<open>
  A generator is the list of the values it yields, and the exception that ends it, if any:
  \<open>([], Some e)\<close> is a generator that raises before its first \<^verbatim>\<open>yield\<close>.
\<close>

type_synonym 'a generator = "'a list \<times> error option"

record cell =
  rcut :: real
  precision :: real
  cell_max_memory :: real
  cell_gs :: "int list"
  nao_nr :: nat
  nbas :: nat
  natm :: nat
  ao_loc_nr :: "int list"
  dimension :: int
  vol :: real
  atom_charges :: "real list"
  atom_symbol :: "nat \<Rightarrow> string"
  atom_coords :: "real list list"
  cell_pseudo :: "string \<rightharpoonup> real \<times> nat \<times> real list"
  cell_atm :: "int list list"
  cell_bas :: "int list list"
  cell_env :: "real list"

text \<open>The fields of a \<^verbatim>\<open>gto.Mole\<close> that \<^verbatim>\<open>_fake_nuc\<close> sets.\<close>

record mole =
  mole_atm :: "int list list"
  mole_bas :: "int list list"
  mole_env :: "real list"
  mole_rcut :: real

record aftdf =
  cell :: cell
  max_memory :: real
  eta :: real
  kpts :: kpoints
  gs :: "int list"
  blockdim :: int

text \<open>
  The routines of other modules that the file calls. Each is a function of its arguments;
  the arrays they return are nested lists and have the shapes their callers reshape them to,
  and \<open>gaussian_int\<close> and \<open>bas_exp\<close> return positive numbers. The pseudopotential table
  \<open>cell_pseudo\<close> gives the entries 1 to 3 of a row: \<open>(rloc, nexp, cexp)\<close>.
  \<^item> \<open>is_zero\<close>, \<open>gamma_point\<close>: \<^verbatim>\<open>pyscf.pbc.lib.kpt_misc\<close>;
  \<^item> \<open>get_Gv_weights\<close>, \<open>reciprocal_vectors\<close>, \<open>get_SI\<close>, \<open>pbc_intor\<close>,
    \<open>bas_exp\<close>: methods of the cell;
  \<^item> \<open>get_gth_vlocG_part1\<close>, \<open>get_pp_loc_part2\<close>, \<open>get_pp_nl\<close>: \<^verbatim>\<open>pseudo.pp_int\<close>;
  \<^item> \<open>gaussian_int\<close>, \<open>conc_env\<close>, \<open>PTR_COORD\<close>, \<open>PTR_ENV_START\<close>: \<^verbatim>\<open>pyscf.gto\<close>;
  \<^item> \<open>get_coulG\<close>: \<^verbatim>\<open>pbc.tools\<close>; \<open>ft_ao\<close>, \<open>ft_aopair_kpts\<close>: \<^verbatim>\<open>ft_ao\<close>;
    \<open>aux_e2\<close>: \<^verbatim>\<open>incore\<close>; \<open>current_memory\<close>: \<^verbatim>\<open>lib\<close>;
  \<^item> \<open>aft_jk_get_jk\<close>, \<open>get_k_kpts\<close>, \<open>get_j_kpts\<close>: \<^verbatim>\<open>aft_jk\<close>.
\<close>

record externals =
  is_zero :: "vec3 \<Rightarrow> bool"
  gamma_point :: "vec3 \<Rightarrow> bool"
  current_memory :: real
  get_Gv_weights :: "cell \<Rightarrow> int list \<Rightarrow> vec3 list \<times> real list list \<times> real list"
  reciprocal_vectors :: "cell \<Rightarrow> real list list"
  get_SI :: "cell \<Rightarrow> vec3 list \<Rightarrow> cmat"
  pbc_intor :: "cell \<Rightarrow> string \<Rightarrow> int \<Rightarrow> int \<Rightarrow> vec3 list \<Rightarrow> cmat list"
  bas_exp :: "cell \<Rightarrow> nat \<Rightarrow> real list"
  get_gth_vlocG_part1 :: "cell \<Rightarrow> vec3 list \<Rightarrow> real list list"
  get_pp_loc_part2 :: "cell \<Rightarrow> vec3 list \<Rightarrow> cmat list"
  get_pp_nl :: "cell \<Rightarrow> vec3 list \<Rightarrow> cmat list"
  gaussian_int :: "int \<Rightarrow> real \<Rightarrow> real"
  conc_env :: "int list list \<Rightarrow> int list list \<Rightarrow> real list \<Rightarrow> int list list \<Rightarrow> int list list
                 \<Rightarrow> real list \<Rightarrow> int list list \<times> int list list \<times> real list"
  PTR_COORD :: nat
  PTR_ENV_START :: nat
  get_coulG :: "cell \<Rightarrow> vec3 \<Rightarrow> int list \<Rightarrow> vec3 list \<Rightarrow> real list"
  ft_ao :: "cell \<Rightarrow> vec3 list \<Rightarrow> cmat"
  ft_aopair_kpts :: "cell \<Rightarrow> vec3 list \<Rightarrow> int \<times> int \<times> int \<times> int \<Rightarrow> string \<Rightarrow> real list list
                       \<Rightarrow> nat list list \<Rightarrow> real list list \<Rightarrow> vec3 \<Rightarrow> kpoints \<Rightarrow> cmat list"
  aux_e2 :: "cell \<Rightarrow> mole \<Rightarrow> string \<Rightarrow> string \<Rightarrow> (vec3 \<times> vec3) list \<Rightarrow> cmat list"
  aft_jk_get_jk :: "aftdf \<Rightarrow> cmat list \<Rightarrow> int \<Rightarrow> vec3 \<Rightarrow> kpoints option \<Rightarrow> bool \<Rightarrow> bool
                      \<Rightarrow> string option \<Rightarrow> cmat \<times> cmat"
  get_k_kpts :: "aftdf \<Rightarrow> cmat list \<Rightarrow> int \<Rightarrow> vec3 list \<Rightarrow> kpoints option \<Rightarrow> string option \<Rightarrow> cmat list"
  get_j_kpts :: "aftdf \<Rightarrow> cmat list \<Rightarrow> int \<Rightarrow> vec3 list \<Rightarrow> kpoints option \<Rightarrow> cmat list"

subsection \<open>Python and numpy helpers\<close>

text \<open>Sequencing of computations that may raise.\<close>

definition and_then :: "error + 'a \<Rightarrow> ('a \<Rightarrow> error + 'b) \<Rightarrow> error + 'b" where
  "and_then x f = (case x of Inl e \<Rightarrow> Inl e | Inr a \<Rightarrow> f a)"

fun foldM :: "('a \<Rightarrow> 's \<Rightarrow> error + 's) \<Rightarrow> 'a list \<Rightarrow> 's \<Rightarrow> error + 's" where
  "foldM f [] s = Inr s"
| "foldM f (x # xs) s = and_then (f x s) (foldM f xs)"

fun mapM :: "('a \<Rightarrow> error + 'b) \<Rightarrow> 'a list \<Rightarrow> error + 'b list" where
  "mapM f [] = Inr []"
| "mapM f (x # xs) = and_then (f x) (\<lambda>y. and_then (mapM f xs) (\<lambda>ys. Inr (y # ys)))"

text \<open>\<^verbatim>\<open>xs[i]\<close> for an integer \<open>i\<close>: a negative index counts from the end.\<close>

definition py_index :: "'a list \<Rightarrow> int \<Rightarrow> error + 'a" where
  "py_index xs i =
     (if 0 \<le> i \<and> i < int (length xs) then Inr (xs ! nat i)
      else if i < 0 \<and> - int (length xs) \<le> i then Inr (xs ! nat (int (length xs) + i))
      else Inl IndexError)"

text \<open>\<^verbatim>\<open>xs[k]\<close> for a loop counter \<open>k\<close>, which is never negative.\<close>

definition row_at :: "'a list \<Rightarrow> nat \<Rightarrow> error + 'a" where
  "row_at xs k = (if k < length xs then Inr (xs ! k) else Inl IndexError)"

text \<open>\<^verbatim>\<open>xs[p0:p1]\<close> for the bounds \<open>0 \<le> p0\<close>, \<open>0 \<le> p1\<close> that \<^verbatim>\<open>prange\<close> yields.\<close>

definition py_slice :: "int \<Rightarrow> int \<Rightarrow> 'a list \<Rightarrow> 'a list" where
  "py_slice p0 p1 xs = drop (nat p0) (take (nat p1) xs)"

text \<open>Python's \<^verbatim>\<open>range(start, stop, step)\<close> for a step other than 0.\<close>

definition py_range :: "int \<Rightarrow> int \<Rightarrow> int \<Rightarrow> int list" where
  "py_range start stop step =
     (if 0 < step then map (\<lambda>k. start + int k * step) [0..<nat ((stop - start + step - 1) div step)]
      else map (\<lambda>k. start + int k * step) [0..<nat ((start - stop - step - 1) div (- step))])"

text \<open>
  Modelled from the spec: \<^verbatim>\<open>lib.prange\<close> is not under src. The grid is split into
  contiguous blocks \<open>(start_index, end_index)\<close> of at most \<open>step\<close> points each
  (section 4.2); a step of 0 is refused, as Python's \<^verbatim>\<open>range\<close> refuses it.
\<close>

definition prange :: "int \<Rightarrow> int \<Rightarrow> int \<Rightarrow> error + (int \<times> int) list" where
  "prange start stop step =
     (if step = 0 then Inl ValueError
      else Inr (map (\<lambda>i. (i, min (i + step) stop)) (py_range start stop step)))"

text \<open>
  Modelled from the spec: \<^verbatim>\<open>lib.cartesian_prod\<close> is not under src. One row for every
  combination of one index per axis, so that the number of rows is the product of the axis
  lengths (section 3: grid point count).
\<close>

definition cartesian_prod :: "'a list list \<Rightarrow> 'a list list" where
  "cartesian_prod xss = product_lists xss"

text \<open>
  Modelled from the spec: \<^verbatim>\<open>lib.pack_tril\<close> and \<^verbatim>\<open>lib.unpack_tril\<close> are not under src.
  A potential matrix is stored compactly as its lower triangle, row after row, and expanded
  on return to a Hermitian matrix (section 3, PotentialMatrix): the upper triangle holds the
  complex conjugates of the lower one.
\<close>

definition pack_tril :: "cmat \<Rightarrow> cvec" where
  "pack_tril m = concat (map (\<lambda>(i, row). take (Suc i) row) (enumerate 0 m))"

definition tril_dim :: "nat \<Rightarrow> nat option" where
  "tril_dim len = find (\<lambda>n. n * (n + 1) div 2 = len) [0..<Suc len]"

definition unpack_tril :: "cvec \<Rightarrow> error + cmat" where
  "unpack_tril tril =
     (case tril_dim (length tril) of
        None \<Rightarrow> Inl ValueError
      | Some n \<Rightarrow> Inr (map (\<lambda>i. map (\<lambda>j. if j \<le> i then tril ! (i * (i + 1) div 2 + j)
                                          else cnj (tril ! (j * (j + 1) div 2 + i))) [0..<n]) [0..<n]))"

text \<open>Elementwise sums of vectors and of matrices, and the contractions written with einsum.\<close>

definition vadd :: "cvec \<Rightarrow> cvec \<Rightarrow> cvec" where
  "vadd a b = map2 (+) a b"

definition madd :: "cmat \<Rightarrow> cmat \<Rightarrow> cmat" where
  "madd a b = map2 (map2 (+)) a b"

definition column_sums :: "cmat \<Rightarrow> cvec" where
  "column_sums m = map sum_list (transpose m)"

definition einsum_ij_ij_j :: "cmat \<Rightarrow> cmat \<Rightarrow> cvec" where
  "einsum_ij_ij_j a b = column_sums (map2 (map2 (*)) a b)"

definition einsum_k_kx_x :: "cvec \<Rightarrow> cmat \<Rightarrow> cvec" where
  "einsum_k_kx_x a b = column_sums (map2 (\<lambda>ak row. map ((*) ak) row) a b)"

definition einsum_i_xi_x :: "cvec \<Rightarrow> cmat \<Rightarrow> cvec" where
  "einsum_i_xi_x a b = map (\<lambda>row. sum_list (map2 (*) a row)) b"

definition einsum_kxz_z_kx :: "cmat list \<Rightarrow> cvec \<Rightarrow> cmat" where
  "einsum_kxz_z_kx buf z = map (map (\<lambda>row. sum_list (map2 (*) row z))) buf"

definition zero3 :: vec3 where
  "zero3 = (0, 0, 0)"

definition vec3_sub :: "vec3 \<Rightarrow> vec3 \<Rightarrow> vec3" where
  "vec3_sub a b = (case (a, b) of ((a1, a2, a3), (b1, b2, b3)) \<Rightarrow> (a1 - b1, a2 - b2, a3 - b3))"

text \<open>\<^verbatim>\<open>numpy.reshape(kpts, (-1,3))\<close>, \<^verbatim>\<open>len(kpts)\<close> and \<^verbatim>\<open>numpy.all(kpts == 0)\<close>.\<close>

definition reshape_kpts :: "kpoints \<Rightarrow> vec3 list" where
  "reshape_kpts ks = (case ks of Single v \<Rightarrow> [v] | Batch vs \<Rightarrow> vs)"

definition len_kpts :: "kpoints \<Rightarrow> nat" where
  "len_kpts ks = (case ks of Single v \<Rightarrow> 3 | Batch vs \<Rightarrow> length vs)"


text \<open>\<^verbatim>\<open>kpts is None or numpy.shape(kpts) == (3,)\<close>.\<close>

definition is_single :: "kpoints option \<Rightarrow> bool" where
  "is_single ka = (case ka of None \<Rightarrow> True | Some (Single v) \<Rightarrow> True | Some (Batch vs) \<Rightarrow> False)"

text \<open>Lines 34-37 and 137-140: the list of k-points \<^verbatim>\<open>kpts_lst\<close>.\<close>

definition kpts_list :: "kpoints option \<Rightarrow> vec3 list" where
  "kpts_list ka = (case ka of None \<Rightarrow> [zero3] | Some ks \<Rightarrow> reshape_kpts ks)"

subsection \<open>estimate_eta\<close>

definition estimate_eta :: "cell \<Rightarrow> real \<Rightarrow> real" where
  "estimate_eta c cutoff = max (ln (4 * pi * rcut c ^ 5 / cutoff) / rcut c ^ 2 * 2) (2 / 10)"

definition AFTDF :: "cell \<Rightarrow> kpoints \<Rightarrow> aftdf" where
  "AFTDF c ks = \<lparr> cell = c, max_memory = cell_max_memory c,
     eta = estimate_eta c (precision c), kpts = ks, gs = cell_gs c, blockdim = 240 \<rparr>"

subsection \<open>Block sizes of pw_loop and ft_loop\<close>

definition py_int :: "real \<Rightarrow> int" where
  "py_int x = (if 0 \<le> x then \<lfloor>x\<rfloor> else \<lceil>x\<rceil>)"

text \<open>Lines 215-217: the block and sub-block size of \<^verbatim>\<open>pw_loop\<close> when \<^verbatim>\<open>blksize is None\<close>.\<close>

definition pw_loop_blksize :: "real \<Rightarrow> int \<Rightarrow> error + int \<times> int" where
  "pw_loop_blksize max_mem nij =
     (if nij = 0 then Inl ZeroDivisionError
      else let blksize = min (max 16 (py_int (max_mem * 1000000 * (75 / 100) / 16 / of_int nij))) 16384;
               sublk = max 16 (blksize div 4)
           in Inr (blksize, sublk))"

text \<open>Lines 271-272: the block size of \<^verbatim>\<open>ft_loop\<close>.\<close>

definition ft_loop_blksize :: "real \<Rightarrow> int \<Rightarrow> int \<Rightarrow> int \<Rightarrow> error + int" where
  "ft_loop_blksize max_mem nij nkpts ngs =
     (if nij * nkpts * 16 = 0 then Inl ZeroDivisionError
      else let blksize = max 16 (py_int (max_mem * 900000 / of_int (nij * nkpts * 16)));
               blksize = min (min blksize ngs) 16384
           in Inr blksize)"


subsection \<open>pw_loop and ft_loop\<close>

text \<open>Lines 203-213 and 260-270: the shell slice in force and the number of orbital pairs.\<close>

definition pair_count :: "int list \<Rightarrow> string \<Rightarrow> int \<times> int \<times> int \<times> int \<Rightarrow> error + int" where
  "pair_count ao_loc aosym shls_slice =
     (case shls_slice of (s0, s1, s2, s3) \<Rightarrow>
        if aosym = ''s2'' then
          if s2 \<noteq> 0 then Inl (AssertionError Shls_slice2_is_zero)
          else and_then (py_index ao_loc s0) (\<lambda>i0.
               and_then (py_index ao_loc s1) (\<lambda>i1.
               Inr (i1 * (i1 + 1) div 2 - i0 * (i0 + 1) div 2)))
        else and_then (py_index ao_loc s1) (\<lambda>a1.
             and_then (py_index ao_loc s0) (\<lambda>a0.
             and_then (py_index ao_loc s3) (\<lambda>a3.
             and_then (py_index ao_loc s2) (\<lambda>a2.
             Inr ((a1 - a0) * (a3 - a2)))))))"

text \<open>Lines 231-237: one yielded sub-block of \<^verbatim>\<open>pw_loop\<close>.\<close>

definition pw_subblock :: "cmat \<Rightarrow> int \<Rightarrow> int \<times> int \<Rightarrow> real list list \<times> real list list \<times> int \<times> int" where
  "pw_subblock aoao p0 ii =
     (case ii of (i0, i1) \<Rightarrow>
        (transpose (map (map Re) (py_slice i0 i1 aoao)),
         transpose (map (map Im) (py_slice i0 i1 aoao)), p0 + i0, p0 + i1))"

text \<open>A generator that runs \<open>f\<close> on one block after the other and yields what \<open>f\<close> returns.\<close>

fun over_blocks :: "('b \<Rightarrow> error + 'a list) \<Rightarrow> 'b list \<Rightarrow> 'a generator" where
  "over_blocks f [] = ([], None)"
| "over_blocks f (b # bs) =
     (case f b of
        Inl e \<Rightarrow> ([], Some e)
      | Inr ys \<Rightarrow> (case over_blocks f bs of (zs, err) \<Rightarrow> (ys @ zs, err)))"

definition pw_loop :: "externals \<Rightarrow> aftdf \<Rightarrow> int list option \<Rightarrow> (vec3 \<times> vec3) option \<Rightarrow> vec3 option
    \<Rightarrow> (int \<times> int \<times> int \<times> int) option \<Rightarrow> real \<Rightarrow> string \<Rightarrow> int option
    \<Rightarrow> (real list list \<times> real list list \<times> int \<times> int) generator" where
  "pw_loop E self gs_arg kpti_kptj q_arg shls_arg max_mem aosym blksize_arg =
     (let c = cell self;
          gs1 = (case gs_arg of None \<Rightarrow> gs self | Some g \<Rightarrow> g);
          (kpti, kptj) = (case kpti_kptj of None \<Rightarrow> (zero3, zero3) | Some kk \<Rightarrow> kk);
          q = (case q_arg of None \<Rightarrow> vec3_sub kptj kpti | Some q' \<Rightarrow> q');
          ao_loc = ao_loc_nr c;
          (Gv, Gvbase, kws) = get_Gv_weights E c gs1;
          b = reciprocal_vectors E c;
          gxyz = cartesian_prod (map (\<lambda>x. [0..<length x]) Gvbase);
          ngs = int (length gxyz);
          shls_slice = (case shls_arg of None \<Rightarrow> (0, int (nbas c), 0, int (nbas c)) | Some s \<Rightarrow> s)
      in case pair_count ao_loc aosym shls_slice of
           Inl e \<Rightarrow> ([], Some e)
         | Inr nij \<Rightarrow>
            (case (case blksize_arg of None \<Rightarrow> pw_loop_blksize max_mem nij | Some bs \<Rightarrow> Inr (bs, bs)) of
               Inl e \<Rightarrow> ([], Some e)
             | Inr (blksize, sublk) \<Rightarrow>
                if nij * blksize < 0 \<or> nij * sublk < 0 then ([], Some ValueError)
                else (case prange 0 ngs blksize of
                        Inl e \<Rightarrow> ([], Some e)
                      | Inr blocks \<Rightarrow>
                          over_blocks (\<lambda>(p0, p1).
                            and_then (row_at (ft_aopair_kpts E c (py_slice p0 p1 Gv) shls_slice aosym b
                                        (py_slice p0 p1 gxyz) Gvbase q (Batch [kptj])) 0) (\<lambda>aoao.
                            and_then (prange 0 (p1 - p0) sublk) (\<lambda>subs.
                            Inr (map (pw_subblock aoao p0) subs)))) blocks)))"

definition ft_loop :: "externals \<Rightarrow> aftdf \<Rightarrow> int list option \<Rightarrow> vec3 \<Rightarrow> kpoints option
    \<Rightarrow> (int \<times> int \<times> int \<times> int) option \<Rightarrow> real \<Rightarrow> string \<Rightarrow> (cmat list \<times> int \<times> int) generator" where
  "ft_loop E self gs_arg q kpts_arg shls_arg max_mem aosym =
     (let c = cell self;
          gs1 = (case gs_arg of None \<Rightarrow> gs self | Some g \<Rightarrow> g)
      in if kpts_arg = None \<and> \<not> is_zero E q then ([], Some (AssertionError Q_is_zero))
         else
          (let kpts1 = (case kpts_arg of None \<Rightarrow> kpts self | Some ks \<Rightarrow> ks);
               nkpts = int (len_kpts kpts1);
               ao_loc = ao_loc_nr c;
               b = reciprocal_vectors E c;
               (Gv, Gvbase, kws) = get_Gv_weights E c gs1;
               gxyz = cartesian_prod (map (\<lambda>x. [0..<length x]) Gvbase);
               ngs = int (length gxyz);
               shls_slice = (case shls_arg of None \<Rightarrow> (0, int (nbas c), 0, int (nbas c)) | Some s \<Rightarrow> s)
           in case pair_count ao_loc aosym shls_slice of
                Inl e \<Rightarrow> ([], Some e)
              | Inr nij \<Rightarrow>
                 (case ft_loop_blksize max_mem nij nkpts ngs of
                    Inl e \<Rightarrow> ([], Some e)
                  | Inr blksize \<Rightarrow>
                     if nkpts * nij * blksize < 0 then ([], Some ValueError)
                     else (case prange 0 ngs blksize of
                             Inl e \<Rightarrow> ([], Some e)
                           | Inr blocks \<Rightarrow>
                               (map (\<lambda>(p0, p1).
                                  (ft_aopair_kpts E c (py_slice p0 p1 Gv) shls_slice aosym b
                                     (py_slice p0 p1 gxyz) Gvbase q kpts1, p0, p1)) blocks, None)))))"

subsection \<open>_fake_nuc and _int_nuc_vloc\<close>

text \<open>Lines 356-367: one turn of the loop over the atoms; the state is \<^verbatim>\<open>(_env, _bas, ptr)\<close>.\<close>

definition fake_nuc_atom :: "externals \<Rightarrow> cell \<Rightarrow> nat \<Rightarrow> real list \<times> int list list \<times> nat
    \<Rightarrow> error + real list \<times> int list list \<times> nat" where
  "fake_nuc_atom E c ia st =
     (case st of (env, bas, ptr) \<Rightarrow>
        let symb = atom_symbol c ia;
            half_sph_norm = (5 / 10) / sqrt pi
        in and_then (case cell_pseudo c symb of
                       Some (rloc, nexp, cexp) \<Rightarrow>
                         if rloc ^ 2 = 0 then Inl ZeroDivisionError else Inr ((5 / 10) / rloc ^ 2)
                     | None \<Rightarrow> Inr (10 ^ 16)) (\<lambda>eta'.
           let norm = half_sph_norm / gaussian_int E 2 eta'
           in Inr (env @ [eta', norm],
                   bas @ [[int ia, 0, 1, 1, 0, int ptr, int ptr + 1, 0]],
                   ptr + 2)))"

definition fake_nuc :: "externals \<Rightarrow> cell \<Rightarrow> error + mole" where
  "fake_nuc E c =
     (let atm = map (\<lambda>(ia, row). row[PTR_COORD E := int (PTR_ENV_START E + 3 * ia)])
                  (enumerate 0 (cell_atm c));
          env0 = replicate (PTR_ENV_START E) 0 @ concat (atom_coords c);
          ptr0 = PTR_ENV_START E + natm c * 3
      in and_then (foldM (fake_nuc_atom E c) [0..<natm c] (env0, [], ptr0)) (\<lambda>(env, bas, ptr).
         Inr \<lparr> mole_atm = atm, mole_bas = bas, mole_env = env, mole_rcut = rcut c \<rparr>))"

text \<open>Lines 100-129. \<^verbatim>\<open>lib.HERMITIAN\<close> is 1.\<close>

definition int_nuc_vloc :: "externals \<Rightarrow> aftdf \<Rightarrow> cell \<Rightarrow> vec3 list \<Rightarrow> string \<Rightarrow> error + cvec list" where
  "int_nuc_vloc E mydf nuccell kpts_lst intor =
     (let c = cell mydf;
          nkpts = length kpts_lst
      in and_then (fake_nuc E c) (\<lambda>fakenuc.
         let (atm, bas, env) = conc_env E (cell_atm nuccell) (cell_bas nuccell) (cell_env nuccell)
                                 (mole_atm fakenuc) (mole_bas fakenuc) (mole_env fakenuc);
             fakenuc = fakenuc\<lparr> mole_atm := atm, mole_bas := bas, mole_env := env \<rparr>;
             kptij_lst = map (\<lambda>k. (k, k)) kpts_lst;
             buf = aux_e2 E c fakenuc intor ''s2'' kptij_lst;
             charge = atom_charges c;
             charge = charge @ map uminus charge;
             mat = einsum_kxz_z_kx buf (map of_real charge)
         in if dimension c = 3 then
              and_then (mapM (\<lambda>(i, z). and_then (row_at (bas_exp E nuccell i) 0) (\<lambda>e. Inr (z / e)))
                          (enumerate 0 (atom_charges c))) (\<lambda>terms.
              let nucbar = sum_list terms * (pi / vol c);
                  ovlp = pbc_intor E c ''int1e_ovlp_sph'' 1 1 kpts_lst
              in foldM (\<lambda>k mat. and_then (row_at ovlp k) (\<lambda>ov.
                                 and_then (row_at mat k) (\<lambda>row.
                                 Inr (mat[k := vadd row (map ((*) (of_real nucbar)) (pack_tril ov))]))))
                   [0..<nkpts] mat)
            else Inr mat))"

subsection \<open>get_nuc\<close>

text \<open>Lines 48-74: the reciprocal-space density \<^verbatim>\<open>vG\<close> and the starting value of \<^verbatim>\<open>vj\<close>.\<close>

definition nuc_terms :: "externals \<Rightarrow> aftdf \<Rightarrow> vec3 list \<Rightarrow> vec3 list \<Rightarrow> real list
    \<Rightarrow> error + cvec \<times> cvec list" where
  "nuc_terms E mydf kpts_lst Gv kws =
     (let c = cell mydf;
          nkpts = length kpts_lst;
          nao = nao_nr c;
          nao_pair = nao * (nao + 1) div 2;
          kpt_allow = zero3
      in if eta mydf = 0 then
           let vpplocG = get_gth_vlocG_part1 E c Gv;
               vpplocG = map uminus (einsum_ij_ij_j (get_SI E c Gv) (map (map of_real) vpplocG));
               vpplocG = map2 (*) vpplocG (map of_real kws);
               vG = vpplocG;
               vj = replicate nkpts (replicate nao_pair 0)
           in Inr (vG, vj)
         else
           let half_sph_norm = (5 / 10) / sqrt pi;
               norm = half_sph_norm / gaussian_int E 2 (eta mydf);
               chg_env = [eta mydf, norm];
               ptr_eta = int (length (cell_env c));
               ptr_norm = ptr_eta + 1;
               chg_bas = map (\<lambda>ia. [int ia, 0, 1, 1, 0, ptr_eta, ptr_norm, 0]) [0..<natm c];
               nuccell = c\<lparr> cell_atm := cell_atm c, cell_bas := chg_bas,
                            cell_env := cell_env c @ chg_env \<rparr>
           in and_then (int_nuc_vloc E mydf nuccell kpts_lst ''int3c2e_sph'') (\<lambda>vj.
              let charge = map uminus (atom_charges c);
                  coulG = get_coulG E c kpt_allow (gs mydf) Gv;
                  coulG = map2 (*) coulG kws;
                  aoaux = ft_ao E nuccell Gv;
                  vG = map2 (*) (einsum_i_xi_x (map of_real charge) aoaux) (map of_real coulG)
              in Inr (vG, vj)))"

text \<open>Lines 79-86: the contribution of one k-point of one block.\<close>

definition nuc_contract_kpt :: "externals \<Rightarrow> vec3 list \<Rightarrow> cvec \<Rightarrow> nat \<times> cmat \<Rightarrow> cvec list
    \<Rightarrow> error + cvec list" where
  "nuc_contract_kpt E kpts_lst vGs kx vj =
     (case kx of (k, aoao) \<Rightarrow>
        and_then (row_at kpts_lst k) (\<lambda>kpt.
        and_then (row_at vj k) (\<lambda>row.
        if gamma_point E kpt then
          let row = vadd row (einsum_k_kx_x (map (\<lambda>z. of_real (Re z)) vGs)
                                (map (map (\<lambda>z. of_real (Re z))) aoao));
              row = vadd row (einsum_k_kx_x (map (\<lambda>z. of_real (Im z)) vGs)
                                (map (map (\<lambda>z. of_real (Im z))) aoao))
          in Inr (vj[k := row])
        else Inr (vj[k := vadd row (einsum_k_kx_x (map cnj vGs) aoao)]))))"

text \<open>Lines 77-86: the loop over the blocks that \<^verbatim>\<open>ft_loop\<close> yields.\<close>

definition nuc_contract :: "externals \<Rightarrow> vec3 list \<Rightarrow> cvec \<Rightarrow> (cmat list \<times> int \<times> int) list
    \<Rightarrow> cvec list \<Rightarrow> error + cvec list" where
  "nuc_contract E kpts_lst vG blocks vj =
     foldM (\<lambda>(aoaoks, p0, p1). foldM (nuc_contract_kpt E kpts_lst (py_slice p0 p1 vG)) (enumerate 0 aoaoks))
       blocks vj"

text \<open>Lines 89-94: the packed rows are expanded, the rows of the \<open>\<Gamma>\<close>-point after
  their imaginary part is dropped.\<close>

definition nuc_unpack :: "externals \<Rightarrow> vec3 list \<Rightarrow> cvec list \<Rightarrow> error + cmat list" where
  "nuc_unpack E kpts_lst vj =
     mapM (\<lambda>(k, kpt). and_then (row_at vj k) (\<lambda>row.
             if gamma_point E kpt then unpack_tril (map (\<lambda>z. of_real (Re z)) row)
             else unpack_tril row))
       (enumerate 0 kpts_lst)"

text \<open>Lines 96-98 and 149-151: a single k-point gets the matrix, not the list.\<close>

definition unwrap :: "kpoints option \<Rightarrow> 'm list \<Rightarrow> error + 'm result" where
  "unwrap ka ms = (if is_single ka then and_then (row_at ms 0) (\<lambda>m. Inr (Bare m)) else Inr (Lst ms))"

text \<open>Lines 39-94: the list \<^verbatim>\<open>vj_kpts\<close>, one matrix for each k-point of \<^verbatim>\<open>kpts_lst\<close>.\<close>

definition nuc_matrices :: "externals \<Rightarrow> aftdf \<Rightarrow> vec3 list \<Rightarrow> error + cmat list" where
  "nuc_matrices E mydf kpts_lst =
     (let c = cell mydf;
          (Gv, Gvbase, kws) = get_Gv_weights E c (gs mydf);
          kpt_allow = zero3
      in and_then (nuc_terms E mydf kpts_lst Gv kws) (\<lambda>(vG, vj).
         let max_mem = max 2000 (max_memory mydf - current_memory E)
         in case ft_loop E mydf (Some (gs mydf)) kpt_allow (Some (Batch kpts_lst)) None max_mem ''s2'' of
              (blocks, Some e) \<Rightarrow> Inl e
            | (blocks, None) \<Rightarrow>
                and_then (nuc_contract E kpts_lst vG blocks vj) (\<lambda>vj.
                nuc_unpack E kpts_lst vj)))"

definition get_nuc :: "externals \<Rightarrow> aftdf \<Rightarrow> kpoints option \<Rightarrow> error + cmat result" where
  "get_nuc E mydf ka =
     (let kpts_lst = kpts_list ka
      in and_then (nuc_matrices E mydf kpts_lst) (\<lambda>vj_kpts.
         unwrap ka vj_kpts))"

subsection \<open>get_pp\<close>

text \<open>Line 147: \<^verbatim>\<open>vpp[k] += vloc1[k] + vloc2[k]\<close>.\<close>

definition pp_add :: "cmat list \<Rightarrow> cmat list \<Rightarrow> nat \<Rightarrow> cmat list \<Rightarrow> error + cmat list" where
  "pp_add vloc1 vloc2 k vpp =
     and_then (row_at vpp k) (\<lambda>p.
     and_then (row_at vloc1 k) (\<lambda>a.
     and_then (row_at vloc2 k) (\<lambda>b.
     Inr (vpp[k := madd p (madd a b)]))))"

text \<open>
  Lines 141-147. \<^verbatim>\<open>get_nuc\<close> is called with the k-points as a batch, so it returns a
  list; the branch for a single matrix is not reached.
\<close>

definition pp_matrices :: "externals \<Rightarrow> aftdf \<Rightarrow> vec3 list \<Rightarrow> error + cmat list" where
  "pp_matrices E mydf kpts_lst =
     (let c = cell mydf;
          nkpts = length kpts_lst
      in and_then (get_nuc E mydf (Some (Batch kpts_lst))) (\<lambda>r.
         case r of
           Bare m \<Rightarrow> Inl ValueError
         | Lst vloc1 \<Rightarrow>
            (let vloc2 = get_pp_loc_part2 E c kpts_lst;
                 vpp = get_pp_nl E c kpts_lst
             in foldM (pp_add vloc1 vloc2) [0..<nkpts] vpp)))"

definition get_pp :: "externals \<Rightarrow> aftdf \<Rightarrow> kpoints option \<Rightarrow> error + cmat result" where
  "get_pp E mydf ka =
     (let kpts_lst = kpts_list ka
      in and_then (pp_matrices E mydf kpts_lst) (\<lambda>vpp.
         unwrap ka vpp))"

subsection \<open>get_jk\<close>


subsection \<open>get_naoaux\<close>

text \<open>
  \<^verbatim>\<open>numpy.asarray(self.gs)\<close> is an int64 array, and \<^verbatim>\<open>gs*2+1\<close>, \<^verbatim>\<open>numpy.prod\<close> and
  \<^verbatim>\<open>ngs * 2\<close> stay in int64.
\<close>

definition get_naoaux :: "aftdf \<Rightarrow> int" where
  "get_naoaux self =
     (let gs = map word_of_int (gs self) :: 64 word list;
          ngs = prod_list (map (\<lambda>g. g * 2 + 1) gs)
      in sint (ngs * 2))"

subsection \<open>Predicates of the specification\<close>

definition matrices :: "'m result \<Rightarrow> 'm list" where
  "matrices r = (case r of Bare m \<Rightarrow> [m] | Lst ms \<Rightarrow> ms)"

text \<open>
  The call with one k-point returns the only element of the list that the call with the
  batch returns, and raises what it raises.
\<close>

definition unwraps_to :: "error + 'm result \<Rightarrow> error + 'm result \<Rightarrow> bool" where
  "unwraps_to single batch \<longleftrightarrow>
     (case batch of
        Inl e \<Rightarrow> single = Inl e
      | Inr (Lst [m]) \<Rightarrow> single = Inr (Bare m)
      | Inr r \<Rightarrow> False)"

definition is_real :: "cmat \<Rightarrow> bool" where
  "is_real m \<longleftrightarrow> list_all (list_all (\<lambda>z. Im z = 0)) m"

definition is_symmetric :: "cmat \<Rightarrow> bool" where
  "is_symmetric m \<longleftrightarrow>
     (\<forall>i < length m. length (m ! i) = length m \<and> (\<forall>j < length m. m ! i ! j = m ! j ! i))"

subsection \<open>A small instance\<close>

text \<open>
  One atom without pseudopotential, two orbitals in one shell, a grid of one point, and
  integral routines that return fixed arrays of the matching shapes.
\<close>

definition example_cell :: cell where
  "example_cell = \<lparr> rcut = 1, precision = 1 / 10 ^ 8, cell_max_memory = 4000, cell_gs = [0, 0, 0],
     nao_nr = 2, nbas = 1, natm = 1, ao_loc_nr = [0, 2], dimension = 3, vol = 1,
     atom_charges = [1], atom_symbol = (\<lambda>ia. ''H''), atom_coords = [[0, 0, 0]],
     cell_pseudo = Map.empty, cell_atm = [[1, 20, 0, 0, 0, 0]],
     cell_bas = [[0, 0, 1, 1, 0, 0, 0, 0]], cell_env = [] \<rparr>"

definition example_df :: aftdf where
  "example_df = \<lparr> cell = example_cell, max_memory = 4000, eta = 0, kpts = Batch [zero3],
     gs = [0, 0, 0], blockdim = 240 \<rparr>"

definition example_ext :: externals where
  "example_ext = \<lparr>
     is_zero = (\<lambda>k. k = zero3),
     gamma_point = (\<lambda>k. k = zero3),
     current_memory = 100,
     get_Gv_weights = (\<lambda>c g. ([zero3], [[0], [0], [0]], [1])),
     reciprocal_vectors = (\<lambda>c. [[1, 0, 0], [0, 1, 0], [0, 0, 1]]),
     get_SI = (\<lambda>c Gv. [[1]]),
     pbc_intor = (\<lambda>c name comp hermi ks. map (\<lambda>k. [[1, 0], [0, 1]]) ks),
     bas_exp = (\<lambda>c i. [1]),
     get_gth_vlocG_part1 = (\<lambda>c Gv. [[2]]),
     get_pp_loc_part2 = (\<lambda>c ks. map (\<lambda>k. [[1, 2], [2, 1]]) ks),
     get_pp_nl = (\<lambda>c ks. map (\<lambda>k. [[3, 0], [0, 3]]) ks),
     gaussian_int = (\<lambda>n a. 1),
     conc_env = (\<lambda>atm1 bas1 env1 atm2 bas2 env2. (atm1 @ atm2, bas1 @ bas2, env1 @ env2)),
     PTR_COORD = 1,
     PTR_ENV_START = 20,
     get_coulG = (\<lambda>c k g Gv. [1]),
     ft_ao = (\<lambda>c Gv. [[1]]),
     ft_aopair_kpts = (\<lambda>c Gv shls aosym b gxyz Gvbase q ks.
                         replicate (len_kpts ks) [[Complex 1 1, 2, Complex 3 (- 1)]]),
     aux_e2 = (\<lambda>c m intor aosym kk. map (\<lambda>k. [[1, 1], [1, 1], [1, 1]]) kk),
     aft_jk_get_jk = (\<lambda>self dm hermi kpt band wj wk exx. ([[1]], [[2]])),
     get_k_kpts = (\<lambda>self dm hermi ks band exx. map (\<lambda>k. [[2]]) ks),
     get_j_kpts = (\<lambda>self dm hermi ks band. map (\<lambda>k. [[1]]) ks) \<rparr>"

section \<open>Properties\<close>

subsection \<open>Auxiliary facts\<close>





lemma prod_list_word_of_int:
  "prod_list (map (\<lambda>g. (word_of_int g :: 'a::len word) * 2 + 1) xs)
     = word_of_int (prod_list (map (\<lambda>g. 2 * g + 1) xs))"
  by (induction xs) (simp_all add: algebra_simps)

lemma prod_list_odd_ge_1:
  "\<forall>g\<in>set xs. (0::int) \<le> g \<Longrightarrow> 1 \<le> prod_list (map (\<lambda>g. 2 * g + 1) xs)"
proof (induction xs)
  case Nil
  then show ?case by simp
next
  case (Cons a xs)
  then have "1 \<le> prod_list (map (\<lambda>g. 2 * g + 1) xs)" and "1 \<le> 2 * a + 1" by simp_all
  then have "1 * 1 \<le> (2 * a + 1) * prod_list (map (\<lambda>g. 2 * g + 1) xs)"
    by (intro mult_mono) simp_all
  then show ?case by simp
qed

lemma sint_word_of_int_64:
  "- (2 ^ 63) \<le> x \<Longrightarrow> x < 2 ^ 63 \<Longrightarrow> sint (word_of_int x :: 64 word) = x"
  by (simp add: sint_sbintrunc' signed_take_bit_int_eq_self)

lemma and_then_simps [simp]:
  "and_then (Inl e) f = Inl e" "and_then (Inr a) f = f a"
  by (simp_all add: and_then_def)

lemma row_at_error: "row_at xs k = Inl e \<Longrightarrow> e = IndexError"
  by (simp add: row_at_def split: if_splits)

lemma py_index_error: "py_index xs i = Inl e \<Longrightarrow> e = IndexError"
  by (simp add: py_index_def split: if_splits)

lemma prange_error: "prange a b st = Inl e \<Longrightarrow> e = ValueError"
  by (simp add: prange_def split: if_splits)

lemma and_then_Inl_cases:
  "and_then x f = Inl e \<Longrightarrow> x = Inl e \<or> (\<exists>a. x = Inr a \<and> f a = Inl e)"
  by (cases x) simp_all

lemma over_blocks_error:
  "over_blocks f bs = (ys, Some e) \<Longrightarrow> \<exists>b\<in>set bs. f b = Inl e"
  by (induction bs arbitrary: ys) (auto split: sum.splits prod.splits)

lemma pair_count_s2_nonzero:
  "s2 \<noteq> 0 \<Longrightarrow> pair_count al ''s2'' (s0, s1, s2, s3) = Inl (AssertionError Shls_slice2_is_zero)"
  by (simp add: pair_count_def)

lemma pair_count_assert:
  "pair_count al aosym (s0, s1, s2, s3) = Inl (AssertionError a)
     \<Longrightarrow> a = Shls_slice2_is_zero \<and> aosym = ''s2'' \<and> s2 \<noteq> 0"
  by (auto simp: pair_count_def split: if_splits dest!: and_then_Inl_cases py_index_error)

lemma pw_loop_blksize_error: "pw_loop_blksize M n = Inl e \<Longrightarrow> e = ZeroDivisionError"
  by (simp add: pw_loop_blksize_def Let_def split: if_splits)

lemma ft_loop_blksize_error: "ft_loop_blksize M n k g = Inl e \<Longrightarrow> e = ZeroDivisionError"
  by (simp add: ft_loop_blksize_def Let_def split: if_splits)

lemma pw_loop_assert_s2:
  assumes "s2 \<noteq> 0"
  shows "pw_loop E self gs_arg kk q_arg (Some (s0, s1, s2, s3)) M ''s2'' blk
           = ([], Some (AssertionError Shls_slice2_is_zero))"
  using assms by (simp add: pw_loop_def Let_def pair_count_s2_nonzero split: prod.splits)

lemma ft_loop_assert_s2:
  assumes "s2 \<noteq> 0"
  shows "ft_loop E self gs_arg q kpts_arg (Some (s0, s1, s2, s3)) M ''s2''
           = ([], Some (AssertionError (if kpts_arg = None \<and> \<not> is_zero E q then Q_is_zero else Shls_slice2_is_zero)))"
  using assms by (simp add: ft_loop_def Let_def pair_count_s2_nonzero split: prod.splits)

lemma pw_loop_assert_only:
  assumes "pw_loop E self gs_arg kk q_arg shls M aosym blk = (ys, Some (AssertionError a))"
  shows "a = Shls_slice2_is_zero \<and> aosym = ''s2'' \<and> (\<exists>s0 s1 s2 s3. shls = Some (s0, s1, s2, s3) \<and> s2 \<noteq> 0)"
  using assms
  by (auto simp: pw_loop_def Let_def split: prod.splits sum.splits option.splits if_splits
      dest!: pair_count_assert pw_loop_blksize_error prange_error over_blocks_error and_then_Inl_cases row_at_error)

lemma ft_loop_assert_only:
  assumes "ft_loop E self gs_arg q kpts_arg shls M aosym = (ys, Some (AssertionError Shls_slice2_is_zero))"
  shows "aosym = ''s2'' \<and> (\<exists>s0 s1 s2 s3. shls = Some (s0, s1, s2, s3) \<and> s2 \<noteq> 0)"
  using assms
  by (auto simp: ft_loop_def Let_def split: prod.splits sum.splits option.splits if_splits
      dest!: pair_count_assert ft_loop_blksize_error prange_error)

lemma and_then_Inr_iff: "and_then x f = Inr y \<longleftrightarrow> (\<exists>a. x = Inr a \<and> f a = Inr y)"
  by (cases x) simp_all

lemma mapM_Inr:
  "mapM f xs = Inr ys \<Longrightarrow> length ys = length xs \<and> (\<forall>i<length xs. f (xs ! i) = Inr (ys ! i))"
proof (induction xs arbitrary: ys)
  case Nil
  then show ?case by simp
next
  case (Cons x xs)
  from Cons.prems obtain y ys' where y: "f x = Inr y" and ys': "mapM f xs = Inr ys'" and e: "ys = y # ys'"
    by (auto simp: and_then_Inr_iff)
  from Cons.IH[OF ys'] have "length ys' = length xs" and n: "\<forall>i<length xs. f (xs ! i) = Inr (ys' ! i)"
    by simp_all
  then show ?case using y e by (auto simp: nth_Cons split: nat.splits)
qed

lemma nuc_unpack_Inr:
  assumes "nuc_unpack E ks vj = Inr ms"
  shows "length ms = length ks"
    and "k < length ks \<Longrightarrow> \<exists>row. row_at vj k = Inr row \<and>
           (if gamma_point E (ks ! k) then unpack_tril (map (\<lambda>z. of_real (Re z)) row) else unpack_tril row) = Inr (ms ! k)"
proof -
  note m = mapM_Inr[OF assms[unfolded nuc_unpack_def]]
  from m show "length ms = length ks" by simp
  assume k: "k < length ks"
  with m have "(case enumerate 0 ks ! k of (k, kpt) \<Rightarrow> and_then (row_at vj k) (\<lambda>row.
             if gamma_point E kpt then unpack_tril (map (\<lambda>z. of_real (Re z)) row)
             else unpack_tril row)) = Inr (ms ! k)" by simp
  with k show "\<exists>row. row_at vj k = Inr row \<and>
           (if gamma_point E (ks ! k) then unpack_tril (map (\<lambda>z. of_real (Re z)) row) else unpack_tril row) = Inr (ms ! k)"
    by (simp add: nth_enumerate_eq and_then_Inr_iff)
qed

lemma nuc_matrices_Inr:
  assumes "nuc_matrices E mydf ks = Inr ms"
  shows "\<exists>vj. nuc_unpack E ks vj = Inr ms"
proof -
  obtain Gv Gvbase kws where g: "get_Gv_weights E (cell mydf) (gs mydf) = (Gv, Gvbase, kws)"
    by (cases "get_Gv_weights E (cell mydf) (gs mydf)") auto
  obtain blocks err where f: "ft_loop E mydf (Some (gs mydf)) zero3 (Some (Batch ks)) None
      (max 2000 (max_memory mydf - current_memory E)) ''s2'' = (blocks, err)"
    by (cases "ft_loop E mydf (Some (gs mydf)) zero3 (Some (Batch ks)) None
      (max 2000 (max_memory mydf - current_memory E)) ''s2''") auto
  from assms g f show ?thesis
    by (cases err) (auto simp: nuc_matrices_def Let_def and_then_Inr_iff)
qed

lemma nuc_matrices_length: "nuc_matrices E mydf ks = Inr ms \<Longrightarrow> length ms = length ks"
  using nuc_matrices_Inr nuc_unpack_Inr(1) by blast

lemma tril_dim_Some: "tril_dim len = Some n \<Longrightarrow> n * (n + 1) div 2 = len"
  unfolding tril_dim_def by (auto dest: find_Some_iff[THEN iffD1])

lemma tri_step: "Suc i * (Suc i + 1) div 2 = i * (i + 1) div 2 + Suc i"
proof -
  have "Suc i * (Suc i + 1) = i * (i + 1) + Suc i * 2" by simp
  moreover have "(a + Suc i * 2) div 2 = a div 2 + Suc i" for a :: nat by simp
  ultimately show ?thesis by (simp only:)
qed

lemma tri_mono: "i \<le> n \<Longrightarrow> i * (i + 1) div 2 \<le> n * (n + 1) div (2::nat)"
  by (intro div_le_mono mult_le_mono) simp_all

lemma tri_index_bound:
  fixes i j n :: nat
  assumes "j \<le> i" "i < n"
  shows "i * (i + 1) div 2 + j < n * (n + 1) div 2"
proof -
  have "i * (i + 1) div 2 + j < Suc i * (Suc i + 1) div 2" using assms(1) by (simp add: tri_step)
  also have "\<dots> \<le> n * (n + 1) div 2" using assms(2) by (intro tri_mono) simp
  finally show ?thesis .
qed

lemma unpack_tril_real:
  assumes "unpack_tril v = Inr m" and re: "\<forall>z\<in>set v. Im z = 0"
  shows "is_real m \<and> is_symmetric m"
proof -
  define f where "f i j = (if j \<le> i then v ! (i * (i + 1) div 2 + j)
                           else cnj (v ! (j * (j + 1) div 2 + i)))" for i j
  from assms(1) obtain n where n: "tril_dim (length v) = Some n"
    and m: "m = map (\<lambda>i. map (f i) [0..<n]) [0..<n]"
    by (auto simp: unpack_tril_def f_def split: option.splits)
  have len: "n * (n + 1) div 2 = length v" using n by (rule tril_dim_Some)
  have im: "Im (v ! (i * (i + 1) div 2 + j)) = 0" if "j \<le> i" "i < n" for i j
    using tri_index_bound[OF that] re len by simp
  have cn: "cnj (v ! (i * (i + 1) div 2 + j)) = v ! (i * (i + 1) div 2 + j)" if "j \<le> i" "i < n" for i j
    using im[OF that] by (simp add: complex_eq_iff)
  have fim: "Im (f i j) = 0" if "i < n" "j < n" for i j
    using that im[of j i] im[of i j] by (simp add: f_def)
  have fsym: "f i j = f j i" if "i < n" "j < n" for i j
  proof (cases "j \<le> i")
    case True
    then show ?thesis using that cn[of j i] by (cases "i = j") (simp_all add: f_def)
  next
    case False
    then show ?thesis using that cn[of i j] by (simp add: f_def)
  qed
  have "is_real m"
    unfolding is_real_def m by (simp add: list_all_iff fim)
  moreover have "is_symmetric m"
    unfolding is_symmetric_def m by (simp add: fsym)
  ultimately show ?thesis ..
qed

lemma unwrap_Inr:
  assumes "unwrap ka ms = Inr r" "length ms = length (kpts_list ka)"
  shows "matrices r = ms"
  using assms
  by (auto simp: unwrap_def matrices_def is_single_def kpts_list_def reshape_kpts_def row_at_def and_then_Inr_iff
        length_Suc_conv split: if_splits option.splits kpoints.splits)

lemma get_nuc_Inr:
  assumes "get_nuc E mydf ka = Inr r"
  shows "nuc_matrices E mydf (kpts_list ka) = Inr (matrices r)"
proof -
  from assms obtain ms where ms: "nuc_matrices E mydf (kpts_list ka) = Inr ms" and u: "unwrap ka ms = Inr r"
    by (auto simp: get_nuc_def and_then_Inr_iff)
  from unwrap_Inr[OF u nuc_matrices_length[OF ms]] ms show ?thesis by simp
qed

lemma foldM_append: "foldM f (xs @ ys) s = and_then (foldM f xs s) (foldM f ys)"
  by (induction xs arbitrary: s) (auto simp: and_then_def split: sum.splits)

lemma foldM_pp_add:
  assumes "n \<le> length vpp" "n \<le> length a" "n \<le> length b"
  shows "\<exists>vpp'. foldM (pp_add a b) [0..<n] vpp = Inr vpp' \<and> length vpp' = length vpp
           \<and> (\<forall>k<n. vpp' ! k = madd (vpp ! k) (madd (a ! k) (b ! k)))
           \<and> (\<forall>k. n \<le> k \<longrightarrow> vpp' ! k = vpp ! k)"
  using assms
proof (induction n)
  case 0
  then show ?case by simp
next
  case (Suc n)
  then obtain v1 where v1: "foldM (pp_add a b) [0..<n] vpp = Inr v1" "length v1 = length vpp"
      "\<forall>k<n. v1 ! k = madd (vpp ! k) (madd (a ! k) (b ! k))" "\<forall>k. n \<le> k \<longrightarrow> v1 ! k = vpp ! k"
    by auto
  have step: "pp_add a b n v1 = Inr (v1[n := madd (v1 ! n) (madd (a ! n) (b ! n))])"
    using Suc.prems v1(2) by (simp add: pp_add_def row_at_def)
  have "foldM (pp_add a b) [0..<Suc n] vpp = Inr (v1[n := madd (v1 ! n) (madd (a ! n) (b ! n))])"
    by (simp add: foldM_append v1(1) step)
  moreover have "\<forall>k<Suc n. (v1[n := madd (v1 ! n) (madd (a ! n) (b ! n))]) ! k = madd (vpp ! k) (madd (a ! k) (b ! k))"
    using v1 Suc.prems by (auto simp: nth_list_update less_Suc_eq)
  moreover have "\<forall>k. Suc n \<le> k \<longrightarrow> (v1[n := madd (v1 ! n) (madd (a ! n) (b ! n))]) ! k = vpp ! k"
    using v1 by (auto simp: nth_list_update)
  ultimately show ?case using v1(2) by simp
qed

lemma foldM_pp_add_length:
  "foldM (pp_add a b) ks vpp = Inr vpp' \<Longrightarrow> length vpp' = length vpp"
proof (induction ks arbitrary: vpp)
  case Nil
  then show ?case by simp
next
  case (Cons k ks)
  from Cons.prems obtain v1 where s: "pp_add a b k vpp = Inr v1" and r: "foldM (pp_add a b) ks v1 = Inr vpp'"
    by (auto simp: and_then_Inr_iff)
  from s have "length v1 = length vpp"
    by (auto simp: pp_add_def and_then_Inr_iff)
  with Cons.IH[OF r] show ?case by simp
qed

lemma get_nuc_batch:
  "get_nuc E mydf (Some (Batch ks)) = (case nuc_matrices E mydf ks of Inl e \<Rightarrow> Inl e | Inr ms \<Rightarrow> Inr (Lst ms))"
  by (cases "nuc_matrices E mydf ks")
     (simp_all add: get_nuc_def kpts_list_def reshape_kpts_def unwrap_def is_single_def)

lemma get_pp_batch:
  "get_pp E mydf (Some (Batch ks)) = (case pp_matrices E mydf ks of Inl e \<Rightarrow> Inl e | Inr ms \<Rightarrow> Inr (Lst ms))"
  by (cases "pp_matrices E mydf ks")
     (simp_all add: get_pp_def kpts_list_def reshape_kpts_def unwrap_def is_single_def)

lemma get_nuc_single:
  "get_nuc E mydf (Some (Single v)) =
     (case nuc_matrices E mydf [v] of Inl e \<Rightarrow> Inl e | Inr ms \<Rightarrow> and_then (row_at ms 0) (\<lambda>m. Inr (Bare m)))"
  by (cases "nuc_matrices E mydf [v]")
     (simp_all add: get_nuc_def kpts_list_def reshape_kpts_def unwrap_def is_single_def)

lemma get_pp_single:
  "get_pp E mydf (Some (Single v)) =
     (case pp_matrices E mydf [v] of Inl e \<Rightarrow> Inl e | Inr ms \<Rightarrow> and_then (row_at ms 0) (\<lambda>m. Inr (Bare m)))"
  by (cases "pp_matrices E mydf [v]")
     (simp_all add: get_pp_def kpts_list_def reshape_kpts_def unwrap_def is_single_def)

lemma unwraps_to_get_nuc:
  "unwraps_to (get_nuc E mydf (Some (Single v))) (get_nuc E mydf (Some (Batch [v])))"
proof (cases "nuc_matrices E mydf [v]")
  case (Inl e)
  then show ?thesis by (simp add: get_nuc_batch get_nuc_single unwraps_to_def)
next
  case (Inr ms)
  from nuc_matrices_length[OF this] obtain m where "ms = [m]" by (auto simp: length_Suc_conv)
  with Inr show ?thesis by (simp add: get_nuc_batch get_nuc_single unwraps_to_def row_at_def)
qed

lemma pp_matrices_length:
  assumes "pp_matrices E mydf ks = Inr ms"
  shows "length ms = length (get_pp_nl E (cell mydf) ks)"
proof -
  from assms obtain r where r: "get_nuc E mydf (Some (Batch ks)) = Inr r"
    and c: "(case r of Bare m \<Rightarrow> Inl ValueError
             | Lst vloc1 \<Rightarrow> foldM (pp_add vloc1 (get_pp_loc_part2 E (cell mydf) ks)) [0..<length ks]
                              (get_pp_nl E (cell mydf) ks)) = Inr ms"
    by (auto simp: pp_matrices_def Let_def and_then_Inr_iff)
  from c show ?thesis by (cases r) (auto dest: foldM_pp_add_length)
qed

lemma unwraps_to_get_pp:
  assumes "length (get_pp_nl E (cell mydf) [v]) = 1"
  shows "unwraps_to (get_pp E mydf (Some (Single v))) (get_pp E mydf (Some (Batch [v])))"
proof (cases "pp_matrices E mydf [v]")
  case (Inl e)
  then show ?thesis by (simp add: get_pp_batch get_pp_single unwraps_to_def)
next
  case (Inr ms)
  from pp_matrices_length[OF this] assms obtain m where "ms = [m]" by (auto simp: length_Suc_conv)
  with Inr show ?thesis by (simp add: get_pp_batch get_pp_single unwraps_to_def row_at_def)
qed



lemma kpts_list_Batch: "kpts_list (Some (Batch ks)) = ks"
  by (simp add: kpts_list_def reshape_kpts_def)

text \<open>The small instance, evaluated.\<close>

lemmas example_defs = example_ext_def example_df_def example_cell_def

lemmas eval_defs = get_nuc_def nuc_matrices_def ft_loop_def nuc_terms_def
  nuc_contract_def nuc_contract_kpt_def nuc_unpack_def unpack_tril_def tril_dim_def vadd_def
  einsum_k_kx_x_def einsum_ij_ij_j_def column_sums_def enumerate_eq_zip
  Let_def pair_count_def py_index_def ft_loop_blksize_def py_int_def prange_def py_range_def
  cartesian_prod_def len_kpts_def py_slice_def zero3_def kpts_list_def reshape_kpts_def
  is_single_def row_at_def unwrap_def

lemma example_get_nuc:
  "get_nuc example_ext example_df (Some (Batch [zero3, (1 / 4, 1 / 4, 1 / 4)]))
     = Inr (Lst [[[- 2, - 4], [- 4, - 6]],
                 [[Complex (- 2) (- 2), - 4], [- 4, Complex (- 6) 2]]])"
  by (simp add: example_defs eval_defs complex_eq_iff)

lemma example_get_nuc_one:
  "get_nuc example_ext example_df (Some (Batch [zero3])) = Inr (Lst [[[- 2, - 4], [- 4, - 6]]])"
  by (simp add: example_defs eval_defs)

lemma example_get_pp_one:
  "get_pp example_ext example_df (Some (Batch [zero3])) = Inr (Lst [[[2, - 2], [- 2, - 2]]])"
  by (simp add: get_pp_def pp_matrices_def pp_add_def madd_def example_defs eval_defs)


lemma get_nuc_batch_is_list: "get_nuc E mydf (Some (Batch ks)) \<noteq> Inr (Bare m)"
  by (simp add: get_nuc_batch split: sum.splits)

text \<open>The helpers on small inputs.\<close>

lemma prange_example: "prange 0 10 4 = Inr [(0, 4), (4, 8), (8, 10)]"
  by (simp add: prange_def py_range_def upt_rec)

lemma py_index_example: "py_index [0, 2, 5 :: int] (- 1) = Inr 5" "py_index [0, 2, 5 :: int] 3 = Inl IndexError"
  by (simp_all add: py_index_def)

lemma unpack_tril_example:
  "unpack_tril [1, Complex 2 1, 3] = Inr [[1, Complex 2 (- 1)], [Complex 2 1, 3]]"
  by (simp add: unpack_tril_def tril_dim_def complex_eq_iff)

lemma pack_tril_example: "pack_tril [[1, 2], [3, 4]] = [1, 3, 4]"
  by (simp add: pack_tril_def enumerate_eq_zip)

lemma example_ft_loop:
  "ft_loop example_ext example_df None zero3 None None 4000 ''s2''
     = ([([[[Complex 1 1, 2, Complex 3 (- 1)]]], 0, 1)], None)"
  by (simp add: example_defs eval_defs)

lemma example_pw_loop:
  "pw_loop example_ext example_df None None None None 2000 ''s2'' None
     = ([([[1], [2], [3]], [[1], [0], [- 1]], 0, 1)], None)"
  by (simp add: pw_loop_def pw_loop_blksize_def pw_subblock_def vec3_sub_def example_defs eval_defs)

text \<open>The same instance with \<^verbatim>\<open>eta = 1\<close>: the analytic term enters through \<^verbatim>\<open>nucbar\<close>.\<close>

lemma example_fake_nuc:
  "fake_nuc example_ext example_cell
     = Inr \<lparr> mole_atm = [[1, 20, 0, 0, 0, 0]], mole_bas = [[0, 0, 1, 1, 0, 23, 24, 0]],
             mole_env = replicate 20 0 @ [0, 0, 0, 10 ^ 16, 1 / (2 * sqrt pi)], mole_rcut = 1 \<rparr>"
  by (simp add: fake_nuc_def fake_nuc_atom_def example_defs enumerate_eq_zip Let_def)

lemma example_get_nuc_eta_one:
  "get_nuc example_ext (example_df\<lparr>eta := 1\<rparr>) (Some (Batch [zero3]))
     = Inr (Lst [[[of_real pi - 1, - 2], [- 2, of_real pi - 3]]])"
  by (simp add: int_nuc_vloc_def fake_nuc_def fake_nuc_atom_def einsum_kxz_z_kx_def
        einsum_i_xi_x_def pack_tril_def example_defs eval_defs)

subsection \<open>The claims\<close>




text \<open>
  C2. For a k-point \<open>v\<close>, \<^verbatim>\<open>get_nuc\<close> and \<^verbatim>\<open>get_pp\<close> called with \<open>v\<close> of shape \<open>(3,)\<close>
  return the only matrix of the one-element list that they return for the batch \<open>[v]\<close> of
  shape \<open>(1,3)\<close> (and raise what the batch call raises), provided the nonlocal part comes
  as one matrix for the one k-point; \<^verbatim>\<open>kpts=None\<close> behaves as the zero vector of shape
  \<open>(3,)\<close>.
\<close>

theorem single_kpoint_unwrapping:
  assumes "length (get_pp_nl E (cell mydf) [v]) = 1"
  shows "unwraps_to (get_nuc E mydf (Some (Single v))) (get_nuc E mydf (Some (Batch [v])))
       \<and> unwraps_to (get_pp E mydf (Some (Single v))) (get_pp E mydf (Some (Batch [v])))
       \<and> get_nuc E mydf None = get_nuc E mydf (Some (Single zero3))
       \<and> get_pp E mydf None = get_pp E mydf (Some (Single zero3))"
  using unwraps_to_get_nuc unwraps_to_get_pp[OF assms]
  by (simp add: get_nuc_def get_pp_def kpts_list_def reshape_kpts_def unwrap_def is_single_def)

theorem single_kpoint_unwrapping_witness:
  "get_nuc example_ext example_df (Some (Batch [zero3])) = Inr (Lst [[[- 2, - 4], [- 4, - 6]]])
   \<and> get_nuc example_ext example_df (Some (Single zero3)) = Inr (Bare [[- 2, - 4], [- 4, - 6]])
   \<and> get_nuc example_ext example_df None = Inr (Bare [[- 2, - 4], [- 4, - 6]])
   \<and> get_pp example_ext example_df (Some (Batch [zero3])) = Inr (Lst [[[2, - 2], [- 2, - 2]]])
   \<and> get_pp example_ext example_df (Some (Single zero3)) = Inr (Bare [[2, - 2], [- 2, - 2]])
   \<and> get_pp example_ext example_df None = Inr (Bare [[2, - 2], [- 2, - 2]])"
proof -
  have h: "length (get_pp_nl example_ext (cell example_df) [zero3]) = 1"
    by (simp add: example_ext_def)
  from single_kpoint_unwrapping[OF h] example_get_nuc_one example_get_pp_one
  show ?thesis by (simp add: unwraps_to_def)
qed

text \<open>
  C3. When \<^verbatim>\<open>get_nuc\<close> returns the list \<open>vloc1\<close> for the k-points and the two external
  parts come with a matrix for each k-point, \<^verbatim>\<open>get_pp\<close> returns, and its matrix for the
  k-th k-point is the entrywise sum \<open>nl[k] + (vloc1[k] + vloc2[k])\<close>.
\<close>

theorem get_pp_additive:
  assumes nuc: "get_nuc E mydf (Some (Batch (kpts_list ka))) = Inr (Lst vloc1)"
    and l2: "length (kpts_list ka) \<le> length (get_pp_loc_part2 E (cell mydf) (kpts_list ka))"
    and nl: "length (kpts_list ka) \<le> length (get_pp_nl E (cell mydf) (kpts_list ka))"
  shows "\<exists>r. get_pp E mydf ka = Inr r
           \<and> (\<forall>k<length (kpts_list ka).
                 matrices r ! k = madd (get_pp_nl E (cell mydf) (kpts_list ka) ! k)
                                   (madd (vloc1 ! k) (get_pp_loc_part2 E (cell mydf) (kpts_list ka) ! k)))"
proof -
  let ?ks = "kpts_list ka"
  let ?n = "length ?ks"
  from nuc have "nuc_matrices E mydf ?ks = Inr vloc1"
    by (simp add: get_nuc_batch split: sum.splits)
  then have l1: "?n \<le> length vloc1" by (simp add: nuc_matrices_length)
  from foldM_pp_add[OF nl l1 l2] obtain vpp where
    f: "foldM (pp_add vloc1 (get_pp_loc_part2 E (cell mydf) ?ks)) [0..<?n] (get_pp_nl E (cell mydf) ?ks) = Inr vpp"
    and len: "length vpp = length (get_pp_nl E (cell mydf) ?ks)"
    and val: "\<forall>k<?n. vpp ! k = madd (get_pp_nl E (cell mydf) ?ks ! k)
                                   (madd (vloc1 ! k) (get_pp_loc_part2 E (cell mydf) ?ks ! k))"
    by blast
  have pm: "pp_matrices E mydf ?ks = Inr vpp"
    by (simp add: pp_matrices_def Let_def nuc f)
  show ?thesis
  proof (cases "is_single ka")
    case True
    then have n1: "?n = 1"
      by (auto simp: is_single_def kpts_list_def reshape_kpts_def split: option.splits kpoints.splits)
    with nl len have "0 < length vpp" by linarith
    then have "get_pp E mydf ka = Inr (Bare (vpp ! 0))"
      using True by (simp add: get_pp_def pm unwrap_def row_at_def)
    then show ?thesis using val n1 by (simp add: matrices_def)
  next
    case False
    then have "get_pp E mydf ka = Inr (Lst vpp)"
      by (simp add: get_pp_def pm unwrap_def)
    then show ?thesis using val by (simp add: matrices_def)
  qed
qed

theorem get_pp_additive_witness:
  "\<exists>r. get_pp example_ext example_df (Some (Batch [zero3, (1 / 4, 1 / 4, 1 / 4)])) = Inr r
       \<and> matrices r ! 0 = [[2, - 2], [- 2, - 2]]
       \<and> matrices r ! 1 = [[Complex 2 (- 2), - 2], [- 2, Complex (- 2) 2]]"
proof -
  let ?ka = "Some (Batch [zero3, (1 / 4, 1 / 4, 1 / 4)])"
  have n: "get_nuc example_ext example_df (Some (Batch (kpts_list ?ka)))
             = Inr (Lst [[[- 2, - 4], [- 4, - 6]], [[Complex (- 2) (- 2), - 4], [- 4, Complex (- 6) 2]]])"
    by (simp only: kpts_list_Batch example_get_nuc)
  have l2: "length (kpts_list ?ka) \<le> length (get_pp_loc_part2 example_ext (cell example_df) (kpts_list ?ka))"
    and nl: "length (kpts_list ?ka) \<le> length (get_pp_nl example_ext (cell example_df) (kpts_list ?ka))"
    by (simp_all add: example_ext_def kpts_list_Batch)
  from get_pp_additive[OF n l2 nl] obtain r where
    r: "get_pp example_ext example_df ?ka = Inr r"
    and v: "\<forall>k<length (kpts_list ?ka).
              matrices r ! k = madd (get_pp_nl example_ext (cell example_df) (kpts_list ?ka) ! k)
                (madd ([[[- 2, - 4], [- 4, - 6]], [[Complex (- 2) (- 2), - 4], [- 4, Complex (- 6) 2]]] ! k)
                      (get_pp_loc_part2 example_ext (cell example_df) (kpts_list ?ka) ! k))"
    by blast
  from v have "matrices r ! 0 = [[2, - 2], [- 2, - 2]]"
    by (simp add: kpts_list_Batch example_ext_def madd_def)
  moreover from v have "matrices r ! 1 = [[Complex 2 (- 2), - 2], [- 2, Complex (- 2) 2]]"
    by (simp add: kpts_list_Batch example_ext_def madd_def complex_eq_iff)
  ultimately show ?thesis using r by blast
qed

text \<open>
  C4. When \<^verbatim>\<open>get_nuc\<close> returns, the matrix of every requested k-point that
  \<^verbatim>\<open>gamma_point\<close> accepts is real (no entry has an imaginary part) and symmetric.
\<close>

theorem gamma_point_real_symmetric:
  assumes "get_nuc E mydf ka = Inr r" and "k < length (kpts_list ka)"
    and "gamma_point E (kpts_list ka ! k)"
  shows "k < length (matrices r) \<and> is_real (matrices r ! k) \<and> is_symmetric (matrices r ! k)"
proof -
  from get_nuc_Inr[OF assms(1)] have ms: "nuc_matrices E mydf (kpts_list ka) = Inr (matrices r)" .
  then obtain vj where vj: "nuc_unpack E (kpts_list ka) vj = Inr (matrices r)"
    using nuc_matrices_Inr by blast
  from nuc_unpack_Inr(2)[OF vj assms(2)] assms(3) obtain row where
    "unpack_tril (map (\<lambda>z. of_real (Re z)) row) = Inr (matrices r ! k)" by auto
  then have "is_real (matrices r ! k) \<and> is_symmetric (matrices r ! k)"
    by (rule unpack_tril_real) simp
  with nuc_unpack_Inr(1)[OF vj] assms(2) show ?thesis by simp
qed

theorem gamma_point_real_symmetric_witness:
  "get_nuc example_ext example_df (Some (Batch [zero3, (1 / 4, 1 / 4, 1 / 4)]))
     = Inr (Lst [[[- 2, - 4], [- 4, - 6]], [[Complex (- 2) (- 2), - 4], [- 4, Complex (- 6) 2]]])
   \<and> is_real [[- 2, - 4], [- 4, - 6]] \<and> is_symmetric [[- 2, - 4], [- 4, - 6]]
   \<and> \<not> is_real [[Complex (- 2) (- 2), - 4], [- 4, Complex (- 6) 2]]"
proof -
  let ?ka = "Some (Batch [zero3, (1 / 4, 1 / 4, 1 / 4)])"
  have k: "0 < length (kpts_list ?ka)" by (simp add: kpts_list_Batch)
  have g: "gamma_point example_ext (kpts_list ?ka ! 0)"
    by (simp add: kpts_list_Batch example_ext_def)
  have "\<not> is_real [[Complex (- 2) (- 2), - 4], [- 4, Complex (- 6) 2]]"
    by (simp add: is_real_def)
  with gamma_point_real_symmetric[OF example_get_nuc k g] example_get_nuc
  show ?thesis by (simp add: matrices_def)
qed

text \<open>
  C5. For a cell with a positive cutoff radius, \<^verbatim>\<open>estimate_eta\<close> does not decrease when
  the cutoff gets smaller, and for every positive cutoff it is at least 0.2.
\<close>

theorem estimate_eta_monotone_floor:
  assumes "0 < rcut c" and "0 < c1" and "c1 \<le> c2"
  shows "estimate_eta c c2 \<le> estimate_eta c c1 \<and> 2 / 10 \<le> estimate_eta c c2
       \<and> 2 / 10 \<le> estimate_eta c c1"
proof -
  have pos: "0 < 4 * pi * rcut c ^ 5" using assms(1) by simp
  have "4 * pi * rcut c ^ 5 / c2 \<le> 4 * pi * rcut c ^ 5 / c1"
    using assms pos by (simp add: frac_le)
  moreover have "0 < 4 * pi * rcut c ^ 5 / c2" using assms pos by simp
  ultimately have "ln (4 * pi * rcut c ^ 5 / c2) \<le> ln (4 * pi * rcut c ^ 5 / c1)"
    by (simp only: ln_mono)
  then have "ln (4 * pi * rcut c ^ 5 / c2) / rcut c ^ 2 * 2
           \<le> ln (4 * pi * rcut c ^ 5 / c1) / rcut c ^ 2 * 2"
    using assms(1) by (simp add: divide_right_mono)
  then have "estimate_eta c c2 \<le> estimate_eta c c1"
    unfolding estimate_eta_def by (rule max.mono) simp
  then show ?thesis by (simp add: estimate_eta_def)
qed

theorem estimate_eta_monotone_floor_witness:
  "0 < rcut example_cell \<and> (0::real) < 1 / 10 ^ 12 \<and> (1::real) / 10 ^ 12 \<le> 1 / 10 ^ 8
   \<and> estimate_eta example_cell (1 / 10 ^ 8) \<le> estimate_eta example_cell (1 / 10 ^ 12)
   \<and> 2 / 10 \<le> estimate_eta example_cell (1 / 10 ^ 8)
   \<and> 2 / 10 \<le> estimate_eta example_cell (1 / 10 ^ 12)"
proof -
  have r: "0 < rcut example_cell" by (simp add: example_cell_def)
  have a: "(0::real) < 1 / 10 ^ 12" and b: "(1::real) / 10 ^ 12 \<le> 1 / 10 ^ 8" by simp_all
  from estimate_eta_monotone_floor[OF r a b] r a b show ?thesis by blast
qed

text \<open>
  C6. With \<^verbatim>\<open>aosym = 's2'\<close> and a shell slice whose third entry is not 0, \<^verbatim>\<open>pw_loop\<close> and
  \<^verbatim>\<open>ft_loop\<close> raise an AssertionError before they yield a block (in \<^verbatim>\<open>ft_loop\<close> the
  assertion on \<open>q\<close> comes first when \<^verbatim>\<open>kpts is None\<close>). With a third entry of 0, or with
  the default slice, the assertion on the slice never fails.
\<close>

theorem packed_symmetry_assertion:
  "(s2 \<noteq> 0 \<longrightarrow>
      pw_loop E self gs_arg kk q_arg (Some (s0, s1, s2, s3)) M ''s2'' blk
        = ([], Some (AssertionError Shls_slice2_is_zero))
    \<and> ft_loop E self gs_arg q kpts_arg (Some (s0, s1, s2, s3)) M ''s2''
        = ([], Some (AssertionError
             (if kpts_arg = None \<and> \<not> is_zero E q then Q_is_zero else Shls_slice2_is_zero))))
   \<and> (shls = None \<or> shls = Some (s0, s1, 0, s3) \<longrightarrow>
      snd (pw_loop E self gs_arg kk q_arg shls M aosym blk) \<noteq> Some (AssertionError Shls_slice2_is_zero)
    \<and> snd (ft_loop E self gs_arg q kpts_arg shls M aosym) \<noteq> Some (AssertionError Shls_slice2_is_zero))"
proof (intro conjI impI)
  assume "s2 \<noteq> 0"
  then show "pw_loop E self gs_arg kk q_arg (Some (s0, s1, s2, s3)) M ''s2'' blk
        = ([], Some (AssertionError Shls_slice2_is_zero))"
    by (rule pw_loop_assert_s2)
next
  assume "s2 \<noteq> 0"
  then show "ft_loop E self gs_arg q kpts_arg (Some (s0, s1, s2, s3)) M ''s2''
        = ([], Some (AssertionError
             (if kpts_arg = None \<and> \<not> is_zero E q then Q_is_zero else Shls_slice2_is_zero)))"
    by (rule ft_loop_assert_s2)
next
  assume shls: "shls = None \<or> shls = Some (s0, s1, 0, s3)"
  show "snd (pw_loop E self gs_arg kk q_arg shls M aosym blk) \<noteq> Some (AssertionError Shls_slice2_is_zero)"
  proof
    assume "snd (pw_loop E self gs_arg kk q_arg shls M aosym blk) = Some (AssertionError Shls_slice2_is_zero)"
    then have "pw_loop E self gs_arg kk q_arg shls M aosym blk
                 = (fst (pw_loop E self gs_arg kk q_arg shls M aosym blk), Some (AssertionError Shls_slice2_is_zero))"
      by (simp add: prod_eq_iff)
    from pw_loop_assert_only[OF this] shls show False by auto
  qed
next
  assume shls: "shls = None \<or> shls = Some (s0, s1, 0, s3)"
  show "snd (ft_loop E self gs_arg q kpts_arg shls M aosym) \<noteq> Some (AssertionError Shls_slice2_is_zero)"
  proof
    assume "snd (ft_loop E self gs_arg q kpts_arg shls M aosym) = Some (AssertionError Shls_slice2_is_zero)"
    then have "ft_loop E self gs_arg q kpts_arg shls M aosym
                 = (fst (ft_loop E self gs_arg q kpts_arg shls M aosym), Some (AssertionError Shls_slice2_is_zero))"
      by (simp add: prod_eq_iff)
    from ft_loop_assert_only[OF this] shls show False by auto
  qed
qed

theorem packed_symmetry_assertion_witness:
  "pw_loop example_ext example_df None None None (Some (0, 1, 1, 1)) 2000 ''s2'' None
     = ([], Some (AssertionError Shls_slice2_is_zero))
   \<and> ft_loop example_ext example_df None zero3 None (Some (0, 1, 1, 1)) 2000 ''s2''
     = ([], Some (AssertionError Shls_slice2_is_zero))
   \<and> snd (pw_loop example_ext example_df None None None (Some (0, 1, 0, 1)) 2000 ''s2'' None)
       \<noteq> Some (AssertionError Shls_slice2_is_zero)
   \<and> snd (ft_loop example_ext example_df None zero3 None (Some (0, 1, 0, 1)) 2000 ''s2'')
       \<noteq> Some (AssertionError Shls_slice2_is_zero)"
proof -
  have z: "is_zero example_ext zero3" by (simp add: example_ext_def)
  from z packed_symmetry_assertion[where ?s2.0 = 1 and E = example_ext and self = example_df
      and gs_arg = None and kk = None and q_arg = None and ?s0.0 = 0 and ?s1.0 = 1 and ?s3.0 = 1
      and M = 2000 and blk = None and q = zero3 and kpts_arg = None
      and shls = "Some (0, 1, 0, 1)" and aosym = "''s2''"]
  show ?thesis by simp
qed



text \<open>
  C8, as amended. For mesh numbers that are not negative and a doubled point count
  \<open>2\<cdot>\<Prod>(2\<cdot>gs\<^sub>i + 1)\<close> below \<open>2\<^sup>6\<^sup>3\<close>, \<^verbatim>\<open>get_naoaux\<close> returns exactly that number.
\<close>

theorem get_naoaux_exact:
  assumes "\<forall>g\<in>set (gs self). 0 \<le> g"
    and "2 * prod_list (map (\<lambda>g. 2 * g + 1) (gs self)) < 2 ^ 63"
  shows "get_naoaux self = 2 * prod_list (map (\<lambda>g. 2 * g + 1) (gs self))"
proof -
  let ?p = "prod_list (map (\<lambda>g. 2 * g + 1) (gs self))"
  have "get_naoaux self = sint (word_of_int (2 * ?p) :: 64 word)"
    by (simp add: get_naoaux_def Let_def comp_def prod_list_word_of_int mult.commute)
  also have "\<dots> = 2 * ?p"
  proof (rule sint_word_of_int_64)
    show "- (2 ^ 63) \<le> 2 * ?p" using prod_list_odd_ge_1[OF assms(1)] by simp
    show "2 * ?p < 2 ^ 63" by (rule assms(2))
  qed
  finally show ?thesis .
qed

theorem get_naoaux_exact_witness:
  "2 * prod_list (map (\<lambda>g. 2 * g + 1) (gs (example_df\<lparr>gs := [10, 10, 10]\<rparr>))) < 2 ^ 63
   \<and> get_naoaux (example_df\<lparr>gs := [10, 10, 10]\<rparr>) = 18522"
  using get_naoaux_exact[of "example_df\<lparr>gs := [10, 10, 10]\<rparr>"] by simp

text \<open>
  C8, as the claim states it, fails where the int64 product wraps around: for
  \<^verbatim>\<open>gs = [2**31, 2**31, 2**31]\<close> the grid has \<open>(2\<^sup>3\<^sup>2 + 1)\<^sup>3\<close> points, and \<^verbatim>\<open>get_naoaux\<close>
  returns 25769803778.
\<close>

theorem get_naoaux_counterexample:
  "get_naoaux (example_df\<lparr>gs := [2147483648, 2147483648, 2147483648]\<rparr>) = 25769803778
   \<and> 2 * prod_list (map (\<lambda>g. 2 * g + 1) [2147483648, 2147483648, 2147483648 :: int])
       = 158456325139209139655115014146
   \<and> get_naoaux (example_df\<lparr>gs := [2147483648, 2147483648, 2147483648]\<rparr>)
       \<noteq> 2 * prod_list (map (\<lambda>g. 2 * g + 1) [2147483648, 2147483648, 2147483648])"
  by (simp add: get_naoaux_def)



text \<open>
  C10. \<^verbatim>\<open>ft_loop\<close> with \<^verbatim>\<open>kpts=None\<close> raises an AssertionError before it yields a block
  when \<^verbatim>\<open>is_zero(q)\<close> is false, and runs as with \<^verbatim>\<open>kpts=self.kpts\<close> when it is true.
\<close>

theorem ft_loop_default_kpts:
  "(\<not> is_zero E q \<longrightarrow>
      ft_loop E self gs_arg q None shls M aosym = ([], Some (AssertionError Q_is_zero)))
   \<and> (is_zero E q \<longrightarrow>
      ft_loop E self gs_arg q None shls M aosym = ft_loop E self gs_arg q (Some (kpts self)) shls M aosym)"
proof (intro conjI impI)
  assume "\<not> is_zero E q"
  then show "ft_loop E self gs_arg q None shls M aosym = ([], Some (AssertionError Q_is_zero))"
    by (simp add: ft_loop_def)
next
  assume "is_zero E q"
  then show "ft_loop E self gs_arg q None shls M aosym
               = ft_loop E self gs_arg q (Some (kpts self)) shls M aosym"
    by (simp add: ft_loop_def Let_def)
qed

theorem ft_loop_default_kpts_witness:
  "ft_loop example_ext example_df None (1, 0, 0) None None 4000 ''s1''
     = ([], Some (AssertionError Q_is_zero))
   \<and> ft_loop example_ext example_df None zero3 None None 4000 ''s1''
     = ft_loop example_ext example_df None zero3 (Some (kpts example_df)) None 4000 ''s1''"
proof -
  have z: "is_zero example_ext zero3" and n: "\<not> is_zero example_ext (1, 0, 0)"
    by (simp_all add: example_ext_def zero3_def)
  from z n ft_loop_default_kpts[of example_ext "(1, 0, 0)" example_df None None 4000 "''s1''"]
    ft_loop_default_kpts[of example_ext zero3 example_df None None 4000 "''s1''"]
  show ?thesis by simp
qed

end
